theory Spec2Isabelle
  imports Complex_Main
begin

section \<open>The bootstrap script \<^verbatim>\<open>server.js\<close>\<close>

text \<open>
  \<^verbatim>\<open>server.js\<close> validates two environment variables, runs \<^verbatim>\<open>npx prisma generate\<close>,
  connects and disconnects a freshly built database client, prepares the Next.js
  application, builds an Express application with two middlewares and two routes,
  starts listening and registers two signal handlers.

  The script is a sequence of calls into libraries. The model keeps the script's own
  control flow (its \<^verbatim>\<open>try\<close>/\<^verbatim>\<open>catch\<close> blocks, its conditions, the order of its calls) and
  records every call that leaves the script as an event of a trace. What a library
  call answers (the outcome of the child process, of the database connection, of
  \<^verbatim>\<open>app.prepare()\<close>, of \<^verbatim>\<open>listen\<close>) is an input of the model, collected in the record
  \<open>world\<close>.
\<close>

subsection \<open>Values of the script\<close>

text \<open>
  \<^verbatim>\<open>process.env\<close> maps names to strings; a name that is not set reads as
  \<^verbatim>\<open>undefined\<close> (here \<open>None\<close>). The script never writes to \<^verbatim>\<open>process.env\<close>. The one
  library call that does is \<^verbatim>\<open>app.prepare()\<close>, which sets \<^verbatim>\<open>NODE_ENV\<close> when the process
  was started without it; after that call the environment stays as it is.
\<close>

type_synonym env = "string \<rightharpoonup> string"

text \<open>JavaScript truthiness of an environment entry: \<^verbatim>\<open>undefined\<close> and the empty
  string are falsy, every other string is truthy.\<close>

fun truthy :: "string option \<Rightarrow> bool" where
  "truthy None = False"
| "truthy (Some s) = (s \<noteq> [])"

text \<open>
  An error object. Every error has a message and a stack; the error with which the
  promisified \<^verbatim>\<open>exec\<close> rejects carries \<^verbatim>\<open>cmd\<close>, \<^verbatim>\<open>stdout\<close> and \<^verbatim>\<open>stderr\<close> as well, other
  errors read \<^verbatim>\<open>undefined\<close> there.
\<close>

record js_error =
  message :: string
  stack :: string
  cmd :: "string option"
  stdout :: "string option"
  stderr :: "string option"

datatype jsval = Undefined | Bool bool | Str string

fun of_opt :: "string option \<Rightarrow> jsval" where
  "of_opt None = Undefined"
| "of_opt (Some s) = Str s"

text \<open>An argument of a \<^verbatim>\<open>console\<close> call: a string, an error object, or an object
  literal given by its properties in order.\<close>

datatype logarg = Text string | Error_obj js_error | Object "(string \<times> jsval) list"

datatype port = Port_str string | Port_8080

datatype signal = SIGTERM | SIGINT | SIGHUP

datatype http_method = GET | HEAD | POST | PUT | DELETE | PATCH | OPTIONS

datatype middleware = Compression | Json_parser

datatype handler = Health | Next_handle

text \<open>The methods a route answers: \<^verbatim>\<open>server.get\<close> registers a route for one method,
  \<^verbatim>\<open>server.all\<close> one for every method.\<close>

datatype route_methods = Only http_method | All_methods

datatype layer = Use middleware | Route route_methods string handler

datatype event =
    Console_log "logarg list"
  | Console_warn "logarg list"
  | Console_error "logarg list"
  | Exec string env
  | Require_prisma_client
  | New_PrismaClient
  | Connect
  | Disconnect
  | App_prepare
  | Express_create
  | Server_use middleware
  | Server_get string
  | Server_all string
  | Server_listen port
  | Process_on signal
  | Process_exit nat

subsection \<open>The outcomes of the library calls\<close>

text \<open>
  One field for each call of the script that can fail or that answers a value.
  \<open>None\<close> in an \<open>option\<close> field means that the call returns normally, \<open>Some e\<close> that it
  throws (or rejects with) \<open>e\<close>. \<open>exec_result\<close> is what the promisified \<^verbatim>\<open>exec\<close> settles
  with: \<open>Inl e\<close> when the command exits nonzero or cannot be run, \<open>Inr (out, err)\<close> with
  the two captured streams otherwise. \<open>validation_stack\<close> is the stack trace that the
  engine attaches to the error built at line 22.
\<close>

record world =
  platform :: string
  arch :: string
  validation_stack :: string
  exec_result :: "js_error + (string \<times> string)"
  require_result :: "js_error option"
  construct_result :: "js_error option"
  connect_result :: "js_error option"
  disconnect_result :: "js_error option"
  prepare_result :: "js_error option"
  listen_result :: "js_error option"

subsection \<open>Sequencing, throwing and catching\<close>

text \<open>A computation yields the events it caused and either the error it threw
  (\<open>Inl\<close>) or its value (\<open>Inr\<close>).\<close>

type_synonym 'a io = "event list \<times> (js_error + 'a)"

definition ret :: "'a \<Rightarrow> 'a io" where
  "ret x = ([], Inr x)"

definition throw :: "js_error \<Rightarrow> 'a io" where
  "throw e = ([], Inl e)"

definition emit :: "event \<Rightarrow> unit io" where
  "emit ev = ([ev], Inr ())"

text \<open>\<open>m\<close> and then \<open>f\<close>; an error of \<open>m\<close> skips \<open>f\<close>.\<close>

definition bind :: "'a io \<Rightarrow> ('a \<Rightarrow> 'b io) \<Rightarrow> 'b io" where
  "bind m f =
     (case m of
        (t, Inl e) \<Rightarrow> (t, Inl e)
      | (t, Inr x) \<Rightarrow> (case f x of (t', r) \<Rightarrow> (t @ t', r)))"

text \<open>\<^verbatim>\<open>try { m } catch (error) { h error }\<close>.\<close>

definition try_catch :: "'a io \<Rightarrow> (js_error \<Rightarrow> 'a io) \<Rightarrow> 'a io" where
  "try_catch m h =
     (case m of
        (t, Inl e) \<Rightarrow> (case h e of (t', r) \<Rightarrow> (t @ t', r))
      | (t, Inr x) \<Rightarrow> (t, Inr x))"

text \<open>A library call that may throw: the call is an event, then its outcome.\<close>

definition call :: "event \<Rightarrow> js_error option \<Rightarrow> unit io" where
  "call ev outcome = (case outcome of None \<Rightarrow> ([ev], Inr ()) | Some e \<Rightarrow> ([ev], Inl e))"

definition console_log :: "logarg list \<Rightarrow> unit io" where
  "console_log args = emit (Console_log args)"

definition console_warn :: "logarg list \<Rightarrow> unit io" where
  "console_warn args = emit (Console_warn args)"

definition console_error :: "logarg list \<Rightarrow> unit io" where
  "console_error args = emit (Console_error args)"

subsection \<open>Module level (lines 8 to 11)\<close>

definition dev :: "env \<Rightarrow> bool" where
  "dev env = (env ''NODE_ENV'' \<noteq> Some ''production'')"

text \<open>\<^verbatim>\<open>process.env.PORT || 8080\<close>: the string of the environment when it is truthy,
  the number 8080 otherwise.\<close>

definition PORT :: "env \<Rightarrow> port" where
  "PORT env = (case env ''PORT'' of
                 None \<Rightarrow> Port_8080
               | Some s \<Rightarrow> if s \<noteq> [] then Port_str s else Port_8080)"

subsection \<open>generatePrismaClient (lines 13 to 71)\<close>

definition requiredEnvVars :: "string list" where
  "requiredEnvVars = [''DATABASE_URL'', ''DIRECT_URL'']"

definition missingVars :: "env \<Rightarrow> string list" where
  "missingVars env = filter (\<lambda>varName. \<not> truthy (env varName)) requiredEnvVars"

text \<open>\<^verbatim>\<open>Array.prototype.join\<close>.\<close>

fun join :: "string \<Rightarrow> string list \<Rightarrow> string" where
  "join sep [] = []"
| "join sep [x] = x"
| "join sep (x # y # ys) = x @ sep @ join sep (y # ys)"

text \<open>\<^verbatim>\<open>new Error(msg)\<close> at line 22.\<close>

definition validation_error :: "world \<Rightarrow> env \<Rightarrow> js_error" where
  "validation_error w env =
     \<lparr> message = ''Missing required environment variables: '' @ join '', '' (missingVars env),
       stack = validation_stack w,
       cmd = None, stdout = None, stderr = None \<rparr>"

text \<open>Lines 17 to 23.\<close>

definition validate :: "world \<Rightarrow> env \<Rightarrow> unit io" where
  "validate w env =
     (if length (missingVars env) > 0 then throw (validation_error w env) else ret ())"

text \<open>Lines 34 to 38: the object spread copies \<^verbatim>\<open>process.env\<close>, then the two named
  properties are written over the copy.\<close>

definition generation_env :: "env \<Rightarrow> env" where
  "generation_env env =
     (env(''PRISMA_CLIENT_ENGINE_TYPE'' \<mapsto> ''binary''))
        (''NODE_ENV'' \<mapsto> (case env ''NODE_ENV'' of
                              None \<Rightarrow> ''production''
                            | Some s \<Rightarrow> if s \<noteq> [] then s else ''production''))"

text \<open>Line 42: \<^verbatim>\<open>await execPromise(command, { env })\<close>.\<close>

definition execPromise :: "world \<Rightarrow> string \<Rightarrow> env \<Rightarrow> (string \<times> string) io" where
  "execPromise w command e =
     (case exec_result w of
        Inl err \<Rightarrow> ([Exec command e], Inl err)
      | Inr streams \<Rightarrow> ([Exec command e], Inr streams))"

text \<open>Lines 48 to 59, the part of the \<^verbatim>\<open>try\<close> block under the comment
  \<^verbatim>\<open>// Verify the client\<close>.\<close>

definition verify_client :: "world \<Rightarrow> unit io" where
  "verify_client w =
     bind (console_log [Text ''Verifying Prisma Client...'']) (\<lambda>_.
     bind (call Require_prisma_client (require_result w)) (\<lambda>_.
     bind (call New_PrismaClient (construct_result w)) (\<lambda>_.
     bind (call Connect (connect_result w)) (\<lambda>_.
     bind (console_log [Text ''Database connection test successful'']) (\<lambda>_.
     bind (call Disconnect (disconnect_result w)) (\<lambda>_.
     console_log [Text ''Prisma Client verification completed successfully'']))))))"

text \<open>The body of the \<^verbatim>\<open>try\<close> block, lines 15 to 59.\<close>

definition generate_try :: "world \<Rightarrow> env \<Rightarrow> unit io" where
  "generate_try w env =
     bind (console_log [Text ''Starting Prisma Client generation process...'']) (\<lambda>_.
     bind (validate w env) (\<lambda>_.
     bind (console_log [Text ''Environment validation:'',
             Object [(''databaseUrlExists'', Bool (truthy (env ''DATABASE_URL''))),
                     (''directUrlExists'', Bool (truthy (env ''DIRECT_URL''))),
                     (''nodeEnv'', of_opt (env ''NODE_ENV'')),
                     (''platform'', Str (platform w)),
                     (''arch'', Str (arch w))]]) (\<lambda>_.
     bind (console_log [Text ''Executing prisma generate...'']) (\<lambda>_.
     bind (execPromise w ''npx prisma generate'' (generation_env env)) (\<lambda>(out, err).
     bind (if err \<noteq> [] then console_warn [Text ''Prisma generation warnings:'', Text err]
           else ret ()) (\<lambda>_.
     bind (if out \<noteq> [] then console_log [Text ''Prisma generation output:'', Text out]
           else ret ()) (\<lambda>_.
     bind (console_log [Text ''Prisma Client generated successfully'']) (\<lambda>_.
     verify_client w))))))))"

text \<open>The \<^verbatim>\<open>catch\<close> block, lines 61 to 69.\<close>

definition generate_catch :: "js_error \<Rightarrow> unit io" where
  "generate_catch error =
     bind (console_error [Text ''Error in Prisma Client generation or verification:'',
             Error_obj error]) (\<lambda>_.
     bind (console_error [Text ''Full error details:'',
             Object [(''message'', Str (message error)),
                     (''stack'', Str (stack error)),
                     (''command'', of_opt (cmd error)),
                     (''stdout'', of_opt (stdout error)),
                     (''stderr'', of_opt (stderr error))]]) (\<lambda>_.
     throw error))"

definition generatePrismaClient :: "world \<Rightarrow> env \<Rightarrow> unit io" where
  "generatePrismaClient w env = try_catch (generate_try w env) generate_catch"

subsection \<open>startServer (lines 73 to 126)\<close>

text \<open>
  What \<^verbatim>\<open>startServer\<close> leaves behind when it returns normally: the Express
  application as the list of its layers in the order of their registration, the
  port given to \<^verbatim>\<open>listen\<close>, the signals for which \<^verbatim>\<open>shutdown\<close> is registered, and the
  environment of the process as the handlers read it afterwards (lines 92, 93 and
  105 read \<^verbatim>\<open>process.env\<close> when they run, not when the script starts).
\<close>

record server =
  layers :: "layer list"
  listen_port :: port
  shutdown_signals :: "signal list"
  process_env :: env

text \<open>How a run of \<^verbatim>\<open>startServer\<close> ends: \<^verbatim>\<open>process.exit(code)\<close> in the \<^verbatim>\<open>catch\<close> block, or a
  normal return with the server set up.\<close>

datatype outcome = Exited nat | Serving server

text \<open>
  \<^verbatim>\<open>express()\<close> makes an application without layers; \<^verbatim>\<open>use\<close>, \<^verbatim>\<open>get\<close> and \<^verbatim>\<open>all\<close> add a
  layer at the end of the application they are called on, and \<^verbatim>\<open>process.on\<close> adds a
  signal to those that are handled. The script changes the application in place;
  here each call returns the new application.
\<close>

definition express :: "layer list io" where
  "express = ([Express_create], Inr [])"

definition server_use :: "layer list \<Rightarrow> middleware \<Rightarrow> layer list io" where
  "server_use app m = ([Server_use m], Inr (app @ [Use m]))"

definition server_get :: "layer list \<Rightarrow> string \<Rightarrow> handler \<Rightarrow> layer list io" where
  "server_get app p h = ([Server_get p], Inr (app @ [Route (Only GET) p h]))"

definition server_all :: "layer list \<Rightarrow> string \<Rightarrow> handler \<Rightarrow> layer list io" where
  "server_all app p h = ([Server_all p], Inr (app @ [Route All_methods p h]))"

definition process_on :: "signal list \<Rightarrow> signal \<Rightarrow> signal list io" where
  "process_on handled sg = ([Process_on sg], Inr (handled @ [sg]))"

text \<open>
  Line 78, \<^verbatim>\<open>await app.prepare()\<close>, with \<^verbatim>\<open>app = next({ dev })\<close> of line 9. While it
  prepares, Next.js (version 14) writes \<^verbatim>\<open>NODE_ENV\<close> into \<^verbatim>\<open>process.env\<close> when the
  variable is unset or empty: \<^verbatim>\<open>development\<close> when \<^verbatim>\<open>dev\<close> is true, \<^verbatim>\<open>production\<close> otherwise.
  A \<^verbatim>\<open>NODE_ENV\<close> that is set stays, and so does every other variable.
\<close>

definition prepared_env :: "env \<Rightarrow> env" where
  "prepared_env env =
     (if truthy (env ''NODE_ENV'') then env
      else env(''NODE_ENV'' \<mapsto> (if dev env then ''development'' else ''production'')))"

definition app_prepare :: "world \<Rightarrow> env \<Rightarrow> env io" where
  "app_prepare w env =
     (case prepare_result w of
        None \<Rightarrow> ([App_prepare], Inr (prepared_env env))
      | Some e \<Rightarrow> ([App_prepare], Inl e))"

text \<open>The body of the \<^verbatim>\<open>try\<close> block, lines 76 to 116. \<^verbatim>\<open>PORT\<close> was read at line 11,
  from the environment with which the process started.\<close>

definition start_try :: "world \<Rightarrow> env \<Rightarrow> server io" where
  "start_try w env =
     bind (generatePrismaClient w env) (\<lambda>_.
     bind (app_prepare w env) (\<lambda>env'.
     bind express (\<lambda>server.
     bind (server_use server Compression) (\<lambda>server.
     bind (server_use server Json_parser) (\<lambda>server.
     bind (server_get server ''/api/health'' Health) (\<lambda>server.
     bind (server_all server ''*'' Next_handle) (\<lambda>server.
     bind (call (Server_listen (PORT env)) (listen_result w)) (\<lambda>_.
     bind (process_on [] SIGTERM) (\<lambda>handled.
     bind (process_on handled SIGINT) (\<lambda>handled.
     ret \<lparr> layers = server, listen_port = PORT env,
           shutdown_signals = handled, process_env = env' \<rparr>))))))))))"

text \<open>The application that lines 79 to 101 build.\<close>

definition the_layers :: "layer list" where
  "the_layers =
     [Use Compression, Use Json_parser,
      Route (Only GET) ''/api/health'' Health,
      Route All_methods ''*'' Next_handle]"

text \<open>
  The \<^verbatim>\<open>catch\<close> block, lines 119 to 124. \<^verbatim>\<open>process.exit\<close> does not return. The block
  catches what is thrown while the \<^verbatim>\<open>try\<close> block runs. An error that the listener
  reports after \<^verbatim>\<open>listen\<close> has returned (the port is in use) is raised outside the
  block; the model has no such error.
\<close>

definition start_catch :: "js_error \<Rightarrow> event list" where
  "start_catch error =
     [Console_error [Text ''Failed to start server:'', Error_obj error],
      Console_error [Text ''Error details:'',
        Object [(''message'', Str (message error)), (''stack'', Str (stack error))]],
      Process_exit 1]"

definition startServer :: "world \<Rightarrow> env \<Rightarrow> event list \<times> outcome" where
  "startServer w env =
     (case start_try w env of
        (t, Inl error) \<Rightarrow> (t @ start_catch error, Exited 1)
      | (t, Inr srv) \<Rightarrow> (t, Serving srv))"

subsection \<open>The serving phase\<close>

text \<open>
  A request as the Express application (Express 4, for which \<^verbatim>\<open>*\<close> is a route path)
  sees it: its method; the path of its URL (without the query string); whether
  \<^verbatim>\<open>decodeURIComponent\<close> accepts that path; what the body is to \<^verbatim>\<open>express.json()\<close>;
  whether the request is conditional and the reply satisfies its validators (an
  \<^verbatim>\<open>If-None-Match\<close> that is \<^verbatim>\<open>*\<close> or names the entity tag of the reply, an
  \<^verbatim>\<open>If-Modified-Since\<close> that the reply's date meets, and no \<^verbatim>\<open>Cache-Control: no-cache\<close>);
  the \<^verbatim>\<open>body\<close> property of the request object, which is not set when the request
  arrives; and whether the stream of the body has been read to its end.
\<close>

datatype payload =
    Not_json                \<comment> \<open>no body, or a body that is not declared as JSON\<close>
  | Json_payload string     \<comment> \<open>a JSON body that parses\<close>
  | Rejected_payload nat    \<comment> \<open>a body that the parser refuses, with the status it answers\<close>

record request =
  req_method :: http_method
  path :: string
  path_decodes :: bool
  payload :: payload
  validators_match :: bool
  body :: "string option"
  body_read :: bool

text \<open>The response object of the pair. Node makes it with its own \<^verbatim>\<open>write\<close> and \<^verbatim>\<open>end\<close>;
  \<^verbatim>\<open>compression()\<close> puts its own methods in their place.\<close>

record response =
  wrapped :: bool

definition new_response :: response where
  "new_response = \<lparr> wrapped = False \<rparr>"

text \<open>The object given to \<^verbatim>\<open>res.json\<close> at lines 87 to 95. \<^verbatim>\<open>nodeEnv\<close> is
  \<^verbatim>\<open>process.env.NODE_ENV\<close> as it is: \<^verbatim>\<open>undefined\<close> (here \<open>None\<close>) when the variable is not
  set, and \<^verbatim>\<open>JSON.stringify\<close> leaves a property out whose value is \<^verbatim>\<open>undefined\<close>.\<close>

record health_environment =
  nodeEnv :: "string option"
  hasDbConnection :: bool

record health_body =
  status :: string
  uptime :: real
  timestamp :: string
  environment :: health_environment

text \<open>The two readings of the clock that the health handler takes:
  \<^verbatim>\<open>process.uptime()\<close> and \<^verbatim>\<open>new Date().toISOString()\<close>.\<close>

record clock =
  uptime_now :: real
  iso_now :: string

datatype reply =
    Json_reply nat health_body        \<comment> \<open>\<^verbatim>\<open>res.json\<close>: status and document\<close>
  | Not_modified                      \<comment> \<open>status 304, no document\<close>
  | Handed_to_next request response   \<comment> \<open>\<^verbatim>\<open>handle(req, res)\<close> was called with this pair\<close>
  | Error_reply nat                   \<comment> \<open>Express answered an error by itself\<close>

text \<open>The object literal of lines 87 to 95.\<close>

definition health_document :: "env \<Rightarrow> clock \<Rightarrow> health_body" where
  "health_document env c =
     \<lparr> status = ''healthy'',
       uptime = uptime_now c,
       timestamp = iso_now c,
       environment =
         \<lparr> nodeEnv = env ''NODE_ENV'',
           hasDbConnection = truthy (env ''DATABASE_URL'') \<rparr> \<rparr>"

text \<open>
  \<^verbatim>\<open>res.json\<close> of Express. The status stays the default 200, unless the request is
  fresh (\<^verbatim>\<open>req.fresh\<close>: a GET or HEAD request whose validators the reply satisfies): then
  Express answers 304 and sends no document.
\<close>

definition res_json :: "request \<Rightarrow> health_body \<Rightarrow> reply" where
  "res_json rq doc =
     (if (req_method rq = GET \<or> req_method rq = HEAD) \<and> validators_match rq
      then Not_modified else Json_reply 200 doc)"

text \<open>Lines 86 to 96, and lines 99 to 101.\<close>

definition health :: "env \<Rightarrow> clock \<Rightarrow> request \<Rightarrow> reply" where
  "health env c rq = res_json rq (health_document env c)"

fun run_handler :: "handler \<Rightarrow> env \<Rightarrow> clock \<Rightarrow> request \<Rightarrow> response \<Rightarrow> reply" where
  "run_handler Health env c rq rs = health env c rq"
| "run_handler Next_handle env c rq rs = Handed_to_next rq rs"

text \<open>
  Express with its default settings. A route registered for GET also answers HEAD
  when the route has no HEAD handler. A literal path is compared without regard to
  the case of ASCII letters, and one trailing slash is accepted (\<^verbatim>\<open>case sensitive
  routing\<close> and \<^verbatim>\<open>strict routing\<close> are off). The path \<^verbatim>\<open>*\<close> matches every path and
  takes the whole path as its parameter, which Express decodes with
  \<^verbatim>\<open>decodeURIComponent\<close>: when the path does not decode, the layer fails with status
  400 instead of matching.
\<close>

fun method_handled :: "route_methods \<Rightarrow> http_method \<Rightarrow> bool" where
  "method_handled All_methods m = True"
| "method_handled (Only r) m = (m = r \<or> (m = HEAD \<and> r = GET))"

definition lower_char :: "char \<Rightarrow> char" where
  "lower_char c =
     (let n = (of_char c :: nat) in if 65 \<le> n \<and> n \<le> 90 then char_of (n + 32) else c)"

definition path_matches :: "string \<Rightarrow> string \<Rightarrow> bool" where
  "path_matches pattern p =
     (if pattern = ''*'' then True
      else map lower_char p = map lower_char pattern
         \<or> map lower_char p = map lower_char pattern @ ''/'')"

text \<open>
  The layers are tried in the order of their registration, each on the pair as the
  layers before it have left it. \<^verbatim>\<open>compression()\<close> replaces \<^verbatim>\<open>write\<close> and \<^verbatim>\<open>end\<close> of the
  response by its own and passes the pair on. \<^verbatim>\<open>express.json()\<close> sets \<^verbatim>\<open>req.body\<close> to an
  empty object and passes the pair on when there is no JSON body; it reads a JSON
  body to the end of its stream and sets \<^verbatim>\<open>req.body\<close> to what it parsed; or it hands an
  error to Express. Express answers an error of a layer by itself, without trying
  any further route (the script registers no error handler). A request that no layer
  answers gets 404. To a HEAD request Node sends the head of the reply without the
  document.
\<close>

fun dispatch :: "layer list \<Rightarrow> env \<Rightarrow> clock \<Rightarrow> request \<Rightarrow> response \<Rightarrow> reply" where
  "dispatch [] env c rq rs = Error_reply 404"
| "dispatch (Use Compression # ls) env c rq rs = dispatch ls env c rq (rs\<lparr>wrapped := True\<rparr>)"
| "dispatch (Use Json_parser # ls) env c rq rs =
     (case payload rq of
        Not_json \<Rightarrow> dispatch ls env c (rq\<lparr>body := Some ''{}''\<rparr>) rs
      | Json_payload s \<Rightarrow> dispatch ls env c (rq\<lparr>body := Some s, body_read := True\<rparr>) rs
      | Rejected_payload code \<Rightarrow> Error_reply code)"
| "dispatch (Route ms pattern h # ls) env c rq rs =
     (if pattern = ''*'' \<and> \<not> path_decodes rq then Error_reply 400
      else if path_matches pattern (path rq) \<and> method_handled ms (req_method rq)
      then run_handler h env c rq rs
      else dispatch ls env c rq rs)"

text \<open>What happens to the process once \<^verbatim>\<open>startServer\<close> has returned.\<close>

datatype input =
    Listening                 \<comment> \<open>the listener is bound: the callback of \<^verbatim>\<open>listen\<close> runs\<close>
  | Incoming request clock    \<comment> \<open>a request arrives\<close>
  | Handler_done              \<comment> \<open>the oldest delegated request is finished\<close>
  | Signal signal             \<comment> \<open>the process receives a signal\<close>

datatype effect =
    Out event
  | Answer request reply

text \<open>The process: running, with the requests that were handed to the framework and
  are not finished yet; ended by \<^verbatim>\<open>process.exit\<close>; or killed by a signal for which no
  handler is registered.\<close>

datatype process = Running server "request list" | Ended nat | Killed signal

definition port_text :: "port \<Rightarrow> string" where
  "port_text p = (case p of Port_str s \<Rightarrow> s | Port_8080 \<Rightarrow> ''8080'')"

text \<open>Lines 104 to 107, the callback of \<^verbatim>\<open>listen\<close>.\<close>

definition ready_log :: "server \<Rightarrow> effect list" where
  "ready_log srv =
     [Out (Console_log [Text (''> Ready on port '' @ port_text (listen_port srv) @ '' ['' @
             (case process_env srv ''NODE_ENV'' of None \<Rightarrow> ''undefined'' | Some s \<Rightarrow> s) @ '']'')]),
      Out (Console_log [Text (''Health check available at: http://localhost:'' @
             port_text (listen_port srv) @ ''/api/health'')])]"

text \<open>Lines 110 to 113.\<close>

definition shutdown :: "effect list" where
  "shutdown = [Out (Console_log [Text ''Shutting down gracefully...'']), Out (Process_exit 0)]"

fun step :: "process \<Rightarrow> input \<Rightarrow> process \<times> effect list" where
  "step (Running srv pending) Listening = (Running srv pending, ready_log srv)"
| "step (Running srv pending) (Incoming rq c) =
     (case dispatch (layers srv) (process_env srv) c rq new_response of
        Handed_to_next rq' rs' \<Rightarrow>
          (Running srv (pending @ [rq']), [Answer rq (Handed_to_next rq' rs')])
      | r \<Rightarrow> (Running srv pending, [Answer rq r]))"
| "step (Running srv pending) Handler_done = (Running srv (tl pending), [])"
| "step (Running srv pending) (Signal sg) =
     (if sg \<in> set (shutdown_signals srv) then (Ended 0, shutdown) else (Killed sg, []))"
| "step (Ended code) i = (Ended code, [])"
| "step (Killed sg) i = (Killed sg, [])"

fun run :: "process \<Rightarrow> input list \<Rightarrow> process \<times> effect list" where
  "run p [] = (p, [])"
| "run p (i # is) =
     (case step p i of (p', out) \<Rightarrow> (case run p' is of (p'', out') \<Rightarrow> (p'', out @ out')))"

subsection \<open>Observations on traces\<close>

fun is_exec :: "event \<Rightarrow> bool" where
  "is_exec (Exec c e) = True"
| "is_exec _ = False"

fun is_console :: "event \<Rightarrow> bool" where
  "is_console (Console_log a) = True"
| "is_console (Console_warn a) = True"
| "is_console (Console_error a) = True"
| "is_console _ = False"

text \<open>The calls of a trace that leave the script for a library or the process, in
  order: everything but the console output.\<close>

definition library_calls :: "event list \<Rightarrow> event list" where
  "library_calls t = filter (\<lambda>ev. \<not> is_console ev) t"




text \<open>The bodies that \<^verbatim>\<open>express.json()\<close> lets pass.\<close>

fun body_accepted :: "payload \<Rightarrow> bool" where
  "body_accepted (Rejected_payload code) = False"
| "body_accepted _ = True"

subsection \<open>Concrete runs\<close>

text \<open>Environments, outcomes of the library calls and requests on which the
  properties below are evaluated.\<close>

definition env_ok :: env where
  "env_ok = [''DATABASE_URL'' \<mapsto> ''postgresql://app@db.internal:6543/rfi'',
             ''DIRECT_URL'' \<mapsto> ''postgresql://app@db.internal:5432/rfi'']"

definition env_dev :: env where
  "env_dev = env_ok(''NODE_ENV'' \<mapsto> ''development'')"

definition env_no_direct :: env where
  "env_no_direct = [''DATABASE_URL'' \<mapsto> ''postgresql://app@db.internal:6543/rfi'',
                    ''DIRECT_URL'' \<mapsto> '''']"

definition world_ok :: world where
  "world_ok =
     \<lparr> platform = ''linux'', arch = ''x64'',
       validation_stack = ''Error: Missing required environment variables'',
       exec_result = Inr (''Generated Prisma Client to ./node_modules/@prisma/client'', ''''),
       require_result = None, construct_result = None, connect_result = None,
       disconnect_result = None, prepare_result = None, listen_result = None \<rparr>"

definition exec_error :: js_error where
  "exec_error =
     \<lparr> message = ''Command failed: npx prisma generate'',
       stack = ''Error: Command failed: npx prisma generate'',
       cmd = Some ''npx prisma generate'',
       stdout = Some '''',
       stderr = Some ''Error: Could not find Prisma Schema'' \<rparr>"

definition world_exec_fails :: world where
  "world_exec_fails = world_ok\<lparr>exec_result := Inl exec_error\<rparr>"

definition connect_error :: js_error where
  "connect_error =
     \<lparr> message = ''Cannot reach database server'',
       stack = ''PrismaClientInitializationError: Cannot reach database server'',
       cmd = None, stdout = None, stderr = None \<rparr>"

definition world_connect_fails :: world where
  "world_connect_fails = world_ok\<lparr>connect_result := Some connect_error\<rparr>"



definition world_warns :: world where
  "world_warns = world_ok\<lparr>exec_result := Inr ('''', ''warn: deprecated preview feature'')\<rparr>"

definition env_prod :: env where
  "env_prod = env_ok(''NODE_ENV'' \<mapsto> ''production'')"

text \<open>The server that a successful start from \<open>env_ok\<close> sets up: while it prepared,
  the framework has set \<^verbatim>\<open>NODE_ENV\<close> to \<^verbatim>\<open>development\<close>.\<close>

definition server_ok :: server where
  "server_ok = \<lparr> layers = the_layers, listen_port = Port_8080,
                  shutdown_signals = [SIGTERM, SIGINT], process_env = env_dev \<rparr>"

definition server_prod :: server where
  "server_prod = \<lparr> layers = the_layers, listen_port = Port_8080,
                    shutdown_signals = [SIGTERM, SIGINT], process_env = env_prod \<rparr>"

definition noon :: clock where
  "noon = \<lparr> uptime_now = 12.5, iso_now = ''2024-05-01T12:00:00.000Z'' \<rparr>"

definition get_health :: request where
  "get_health = \<lparr> req_method = GET, path = ''/api/health'', path_decodes = True,
       payload = Not_json, validators_match = False, body = None, body_read = False \<rparr>"

definition head_health :: request where
  "head_health = \<lparr> req_method = HEAD, path = ''/api/health'', path_decodes = True,
       payload = Not_json, validators_match = False, body = None, body_read = False \<rparr>"

definition get_health_slash :: request where
  "get_health_slash = \<lparr> req_method = GET, path = ''/api/health/'', path_decodes = True,
       payload = Not_json, validators_match = False, body = None, body_read = False \<rparr>"

definition post_rfi :: request where
  "post_rfi = \<lparr> req_method = POST, path = ''/api/rfis'', path_decodes = True,
                 payload = Json_payload ''[101, 102]'', validators_match = False,
                 body = None, body_read = False \<rparr>"

text \<open>A conditional request for the health check: \<^verbatim>\<open>If-None-Match: *\<close>.\<close>

definition get_health_conditional :: request where
  "get_health_conditional = get_health\<lparr>validators_match := True\<rparr>"

section \<open>Properties\<close>

subsection \<open>Auxiliary facts\<close>

lemmas io_defs = bind_def ret_def throw_def emit_def call_def console_log_def console_warn_def
  console_error_def try_catch_def execPromise_def verify_client_def

lemmas app_defs = express_def server_use_def server_get_def server_all_def process_on_def
  the_layers_def

lemma validate_cases:
  "validate w env =
     (if missingVars env = [] then ([], Inr ()) else ([], Inl (validation_error w env)))"
  by (simp add: validate_def ret_def throw_def)

lemma generate_catch_eq:
  "generate_catch e =
     ([Console_error [Text ''Error in Prisma Client generation or verification:'', Error_obj e],
       Console_error [Text ''Full error details:'',
             Object [(''message'', Str (message e)),
                     (''stack'', Str (stack e)),
                     (''command'', of_opt (cmd e)),
                     (''stdout'', of_opt (stdout e)),
                     (''stderr'', of_opt (stderr e))]]], Inl e)"
  by (simp add: generate_catch_def io_defs)

lemma generate_reraises:
  "generatePrismaClient w env =
     (case generate_try w env of
        (t, Inl e) \<Rightarrow> (t @ fst (generate_catch e), Inl e)
      | (t, Inr u) \<Rightarrow> (t, Inr u))"
  by (simp add: generatePrismaClient_def try_catch_def generate_catch_eq
        split: prod.splits sum.splits)

lemma generate_try_missing:
  "missingVars env \<noteq> [] \<Longrightarrow> generate_try w env =
     ([Console_log [Text ''Starting Prisma Client generation process...'']],
      Inl (validation_error w env))"
  by (simp add: generate_try_def validate_cases io_defs)

lemma generate_try_exec_fails:
  "exec_result w = Inl e \<Longrightarrow> \<exists>t e'. generate_try w env = (t, Inl e')"
  by (simp add: generate_try_def validate_cases io_defs)

lemma generate_try_connect_fails:
  "connect_result w = Some e \<Longrightarrow> \<exists>t e'. generate_try w env = (t, Inl e')"
  by (simp add: generate_try_def validate_cases io_defs
        split: sum.splits option.splits prod.splits)

lemma generate_try_events:
  "ev \<in> set (fst (generate_try w env)) \<Longrightarrow>
     ev \<noteq> App_prepare \<and> (\<forall>p. ev \<noteq> Server_listen p)
     \<and> (\<forall>a. ev \<noteq> Console_error a) \<and> (\<forall>n. ev \<noteq> Process_exit n)"
  by (auto simp add: generate_try_def validate_cases io_defs
        split: sum.splits option.splits if_splits prod.splits)

lemma generate_events:
  "ev \<in> set (fst (generatePrismaClient w env)) \<Longrightarrow>
     ev \<noteq> App_prepare \<and> (\<forall>p. ev \<noteq> Server_listen p) \<and> (\<forall>n. ev \<noteq> Process_exit n)"
  using generate_try_events [of ev w env]
  by (auto simp add: generate_reraises generate_catch_eq split: prod.splits sum.splits)

lemma start_generate_fails:
  "generatePrismaClient w env = (t, Inl e) \<Longrightarrow>
     startServer w env = (t @ start_catch e, Exited 1)"
  by (simp add: startServer_def start_try_def bind_def)

lemma generate_try_succeeds:
  assumes "missingVars env = []" "exec_result w = Inr (out, err)"
    "require_result w = None" "construct_result w = None"
    "connect_result w = None" "disconnect_result w = None"
  shows "generate_try w env =
     ([Console_log [Text ''Starting Prisma Client generation process...''],
       Console_log [Text ''Environment validation:'',
             Object [(''databaseUrlExists'', Bool (truthy (env ''DATABASE_URL''))),
                     (''directUrlExists'', Bool (truthy (env ''DIRECT_URL''))),
                     (''nodeEnv'', of_opt (env ''NODE_ENV'')),
                     (''platform'', Str (platform w)),
                     (''arch'', Str (arch w))]],
       Console_log [Text ''Executing prisma generate...''],
       Exec ''npx prisma generate'' (generation_env env)]
      @ (if err \<noteq> [] then [Console_warn [Text ''Prisma generation warnings:'', Text err]] else [])
      @ (if out \<noteq> [] then [Console_log [Text ''Prisma generation output:'', Text out]] else [])
      @ [Console_log [Text ''Prisma Client generated successfully''],
         Console_log [Text ''Verifying Prisma Client...''],
         Require_prisma_client, New_PrismaClient, Connect,
         Console_log [Text ''Database connection test successful''],
         Disconnect,
         Console_log [Text ''Prisma Client verification completed successfully'']], Inr ())"
  using assms by (simp add: generate_try_def validate_cases io_defs)

lemma generate_try_returns:
  assumes "generate_try w env = (t, Inr u)"
  shows "missingVars env = [] \<and> (\<exists>out err. exec_result w = Inr (out, err))
       \<and> require_result w = None \<and> construct_result w = None
       \<and> connect_result w = None \<and> disconnect_result w = None"
  using assms
  by (auto simp add: generate_try_def validate_cases io_defs
       split: sum.splits option.splits if_splits prod.splits)

lemma start_try_returns:
  assumes "start_try w env = (t, Inr srv)"
  shows "\<exists>g. generate_try w env = (g, Inr ()) \<and> prepare_result w = None \<and> listen_result w = None
       \<and> t = g @ [App_prepare, Express_create, Server_use Compression, Server_use Json_parser,
                  Server_get ''/api/health'', Server_all ''*'', Server_listen (PORT env),
                  Process_on SIGTERM, Process_on SIGINT]
       \<and> srv = \<lparr> layers = the_layers, listen_port = PORT env,
                 shutdown_signals = [SIGTERM, SIGINT], process_env = prepared_env env \<rparr>"
  using assms
  by (auto simp add: start_try_def generate_reraises generate_catch_eq bind_def call_def
        emit_def ret_def app_prepare_def app_defs split: sum.splits option.splits prod.splits)

lemma serving_start_try:
  "snd (startServer w env) = Serving srv \<Longrightarrow>
     start_try w env = (fst (startServer w env), Inr srv)"
  by (auto simp add: startServer_def split: prod.splits sum.splits)

lemma start_try_succeeds:
  assumes "generate_try w env = (g, Inr ())" "prepare_result w = None" "listen_result w = None"
  shows "start_try w env =
     (g @ [App_prepare, Express_create, Server_use Compression, Server_use Json_parser,
           Server_get ''/api/health'', Server_all ''*'', Server_listen (PORT env),
           Process_on SIGTERM, Process_on SIGINT],
      Inr \<lparr> layers = the_layers, listen_port = PORT env,
            shutdown_signals = [SIGTERM, SIGINT], process_env = prepared_env env \<rparr>)"
  using assms
  by (simp add: start_try_def generate_reraises bind_def call_def emit_def ret_def app_prepare_def app_defs)

lemma startServer_serving:
  assumes "missingVars env = []" "exec_result w = Inr (out, err)"
    "require_result w = None" "construct_result w = None"
    "connect_result w = None" "disconnect_result w = None"
    "prepare_result w = None" "listen_result w = None"
  shows "snd (startServer w env) =
           Serving \<lparr> layers = the_layers, listen_port = PORT env,
                     shutdown_signals = [SIGTERM, SIGINT], process_env = prepared_env env \<rparr>"
proof -
  have g: "generate_try w env = (fst (generate_try w env), Inr ())"
    using generate_try_succeeds [OF assms(1-6)] by simp
  show ?thesis
    using start_try_succeeds [OF g assms(7,8)] by (simp add: startServer_def)
qed

lemma world_ok_results:
  "exec_result world_ok = Inr (''Generated Prisma Client to ./node_modules/@prisma/client'', [])"
  "require_result world_ok = None" "construct_result world_ok = None"
  "connect_result world_ok = None" "disconnect_result world_ok = None"
  "prepare_result world_ok = None" "listen_result world_ok = None"
  by (simp_all add: world_ok_def)

lemma env_ok_complete: "missingVars env_ok = []"
  by (simp add: missingVars_def requiredEnvVars_def env_ok_def)

lemma env_ok_port: "PORT env_ok = Port_8080"
  by (simp add: PORT_def env_ok_def)

lemma prepared_env_node_env:
  "prepared_env env ''NODE_ENV'' =
     Some (case env ''NODE_ENV'' of
             None \<Rightarrow> ''development''
           | Some s \<Rightarrow> if s = [] then ''development'' else s)"
  by (simp add: prepared_env_def dev_def split: option.splits)

lemma prepared_env_other: "v \<noteq> ''NODE_ENV'' \<Longrightarrow> prepared_env env v = env v"
  by (simp add: prepared_env_def)

lemma prepared_env_ok: "prepared_env env_ok = env_dev"
  by (simp add: prepared_env_def dev_def env_ok_def env_dev_def)

lemma prepared_env_prod: "prepared_env env_prod = env_prod"
  by (simp add: prepared_env_def env_prod_def)

lemma world_ok_serves: "snd (startServer world_ok env_ok) = Serving server_ok"
  using startServer_serving [OF env_ok_complete world_ok_results]
  by (simp add: server_ok_def env_ok_port prepared_env_ok)

lemma startServer_cases:
  "startServer w env =
     (case generate_try w env of
        (t, Inl e) \<Rightarrow> (t @ fst (generate_catch e) @ start_catch e, Exited 1)
      | (t, Inr u) \<Rightarrow>
          (case prepare_result w of
             Some e \<Rightarrow> (t @ [App_prepare] @ start_catch e, Exited 1)
           | None \<Rightarrow>
               (case listen_result w of
                  Some e \<Rightarrow>
                    (t @ [App_prepare, Express_create, Server_use Compression,
                          Server_use Json_parser, Server_get ''/api/health'', Server_all ''*'',
                          Server_listen (PORT env)] @ start_catch e, Exited 1)
                | None \<Rightarrow>
                    (t @ [App_prepare, Express_create, Server_use Compression,
                          Server_use Json_parser, Server_get ''/api/health'', Server_all ''*'',
                          Server_listen (PORT env), Process_on SIGTERM, Process_on SIGINT],
                     Serving \<lparr> layers = the_layers, listen_port = PORT env,
                               shutdown_signals = [SIGTERM, SIGINT], process_env = prepared_env env \<rparr>))))"
  by (simp add: startServer_def start_try_def generate_reraises bind_def call_def emit_def ret_def
        app_prepare_def app_defs split: prod.splits sum.splits option.splits)

lemma generate_try_after_exec:
  assumes "missingVars env = []" and "exec_result w = Inr (out, err)"
  shows "generate_try w env =
     ([Console_log [Text ''Starting Prisma Client generation process...''],
       Console_log [Text ''Environment validation:'',
             Object [(''databaseUrlExists'', Bool (truthy (env ''DATABASE_URL''))),
                     (''directUrlExists'', Bool (truthy (env ''DIRECT_URL''))),
                     (''nodeEnv'', of_opt (env ''NODE_ENV'')),
                     (''platform'', Str (platform w)),
                     (''arch'', Str (arch w))]],
       Console_log [Text ''Executing prisma generate...''],
       Exec ''npx prisma generate'' (generation_env env)]
      @ (if err \<noteq> [] then [Console_warn [Text ''Prisma generation warnings:'', Text err]] else [])
      @ (if out \<noteq> [] then [Console_log [Text ''Prisma generation output:'', Text out]] else [])
      @ [Console_log [Text ''Prisma Client generated successfully'']]
      @ fst (verify_client w), snd (verify_client w))"
  using assms
  by (cases "verify_client w")
    (simp add: generate_try_def validate_cases bind_def ret_def emit_def console_log_def
      console_warn_def execPromise_def)

lemma verify_client_events:
  "Require_prisma_client \<in> set (fst (verify_client w))"
  "Console_warn a \<notin> set (fst (verify_client w))"
  by (simp_all add: verify_client_def bind_def call_def emit_def console_log_def
        split: option.splits)

lemma verify_client_same:
  "verify_client (w\<lparr>exec_result := r\<rparr>) = verify_client w"
  by (simp add: verify_client_def)

lemma generate_try_warning:
  assumes "missingVars env = []" and "exec_result w = Inr (out, err)" and "err \<noteq> []"
  shows "Console_warn [Text ''Prisma generation warnings:'', Text err]
           \<in> set (fst (generate_try w env))
       \<and> Require_prisma_client \<in> set (fst (generate_try w env))
       \<and> filter (\<lambda>ev. ev \<noteq> Console_warn [Text ''Prisma generation warnings:'', Text err])
           (fst (generate_try w env))
           = fst (generate_try (w\<lparr>exec_result := Inr (out, [])\<rparr>) env)
       \<and> snd (generate_try w env) = snd (generate_try (w\<lparr>exec_result := Inr (out, [])\<rparr>) env)"
proof -
  have a: "exec_result (w\<lparr>exec_result := Inr (out, [])\<rparr>) = Inr (out, [])" by simp
  have f: "filter (\<lambda>ev. ev \<noteq> Console_warn [Text ''Prisma generation warnings:'', Text err])
             (fst (verify_client w)) = fst (verify_client w)"
    by (rule filter_True) (auto simp add: verify_client_events)
  show ?thesis
    using assms(3) f
    by (simp add: generate_try_after_exec [OF assms(1,2)] generate_try_after_exec [OF assms(1) a]
          verify_client_events verify_client_same)
qed

lemma world_warns_results:
  "exec_result world_warns = Inr ([], ''warn: deprecated preview feature'')"
  "require_result world_warns = None" "construct_result world_warns = None"
  "connect_result world_warns = None" "disconnect_result world_warns = None"
  "prepare_result world_warns = None" "listen_result world_warns = None"
  by (simp_all add: world_warns_def world_ok_def)



lemma generate_try_exec_error:
  assumes "missingVars env = []" and "exec_result w = Inl e"
  shows "generate_try w env =
     ([Console_log [Text ''Starting Prisma Client generation process...''],
       Console_log [Text ''Environment validation:'',
             Object [(''databaseUrlExists'', Bool (truthy (env ''DATABASE_URL''))),
                     (''directUrlExists'', Bool (truthy (env ''DIRECT_URL''))),
                     (''nodeEnv'', of_opt (env ''NODE_ENV'')),
                     (''platform'', Str (platform w)),
                     (''arch'', Str (arch w))]],
       Console_log [Text ''Executing prisma generate...''],
       Exec ''npx prisma generate'' (generation_env env)], Inl e)"
  using assms
  by (simp add: generate_try_def validate_cases bind_def ret_def emit_def console_log_def
      execPromise_def)





lemma verify_client_no_exec: "filter is_exec (fst (verify_client w)) = []"
  by (simp add: verify_client_def bind_def call_def emit_def console_log_def
        split: option.splits)

lemma generate_try_execs:
  assumes "missingVars env = []"
  shows "filter is_exec (fst (generate_try w env))
           = [Exec ''npx prisma generate'' (generation_env env)]"
proof (cases "exec_result w")
  case (Inl e)
  show ?thesis
    by (simp add: generate_try_exec_error [OF assms Inl])
next
  case (Inr streams)
  obtain out err where s: "streams = (out, err)" by (cases streams)
  show ?thesis
    by (simp add: generate_try_after_exec [OF assms Inr [unfolded s]] verify_client_no_exec)
qed

lemma startServer_execs:
  "filter is_exec (fst (startServer w env)) = filter is_exec (fst (generate_try w env))"
proof -
  obtain t r where g: "generate_try w env = (t, r)" by (cases "generate_try w env")
  show ?thesis
    by (simp add: startServer_cases g generate_catch_eq start_catch_def
          split: sum.splits option.splits)
qed

lemma path_matches_health_self: "path_matches ''/api/health'' ''/api/health''"
  by (simp add: path_matches_def)

lemma path_matches_star: "path_matches ''*'' p"
  by (simp add: path_matches_def)

lemma dispatch_the_layers:
  "dispatch the_layers env c rq rs =
     (case payload rq of
        Rejected_payload code \<Rightarrow> Error_reply code
      | Not_json \<Rightarrow>
          if path_matches ''/api/health'' (path rq) \<and> (req_method rq = GET \<or> req_method rq = HEAD)
          then res_json rq (health_document env c)
          else if \<not> path_decodes rq then Error_reply 400
          else Handed_to_next (rq\<lparr>body := Some ''{}''\<rparr>) (rs\<lparr>wrapped := True\<rparr>)
      | Json_payload s \<Rightarrow>
          if path_matches ''/api/health'' (path rq) \<and> (req_method rq = GET \<or> req_method rq = HEAD)
          then res_json rq (health_document env c)
          else if \<not> path_decodes rq then Error_reply 400
          else Handed_to_next (rq\<lparr>body := Some s, body_read := True\<rparr>)
                 (rs\<lparr>wrapped := True\<rparr>))"
  by (auto simp add: the_layers_def path_matches_star health_def res_json_def
        split: payload.splits)

lemma serving_server:
  assumes "snd (startServer w env) = Serving srv"
  shows "srv = \<lparr> layers = the_layers, listen_port = PORT env,
                 shutdown_signals = [SIGTERM, SIGINT], process_env = prepared_env env \<rparr>
       \<and> missingVars env = []"
  using start_try_returns [OF serving_start_try [OF assms]] generate_try_returns [of w env]
  by blast

lemma complete_database_url: "missingVars env = [] \<Longrightarrow> truthy (env ''DATABASE_URL'')"
  by (simp add: missingVars_def requiredEnvVars_def split: if_splits)

lemma prepared_database_url:
  "missingVars env = [] \<Longrightarrow> truthy (prepared_env env ''DATABASE_URL'')"
  using complete_database_url [of env] by (simp add: prepared_env_other)

lemma env_prod_complete: "missingVars env_prod = []"
  by (simp add: missingVars_def requiredEnvVars_def env_prod_def env_ok_def)

lemma env_prod_port: "PORT env_prod = Port_8080"
  by (simp add: PORT_def env_prod_def env_ok_def)

lemma world_ok_serves_prod: "snd (startServer world_ok env_prod) = Serving server_prod"
  using startServer_serving [OF env_prod_complete world_ok_results]
  by (simp add: server_prod_def env_prod_port prepared_env_prod)

lemma run_Cons:
  "run p (i # inputs) =
     (fst (run (fst (step p i)) inputs), snd (step p i) @ snd (run (fst (step p i)) inputs))"
  by (simp split: prod.splits)

lemma run_append:
  "run p (xs @ ys) =
     (fst (run (fst (run p xs)) ys), snd (run p xs) @ snd (run (fst (run p xs)) ys))"
  by (induction xs arbitrary: p) (simp_all add: run_Cons del: run.simps(2))

lemma run_Ended: "run (Ended code) xs = (Ended code, [])"
  by (induction xs) auto

lemma run_Killed: "run (Killed sg) xs = (Killed sg, [])"
  by (induction xs) auto

lemma step_keeps_running:
  assumes "\<forall>s. i \<noteq> Signal s"
  shows "\<exists>pending'. fst (step (Running srv pending) i) = Running srv pending'"
  using assms by (cases i) (auto split: reply.splits)

lemma run_keeps_running:
  assumes "\<forall>s. Signal s \<notin> set xs"
  shows "\<exists>pending'. fst (run (Running srv pending) xs) = Running srv pending'"
  using assms
proof (induction xs arbitrary: pending)
  case Nil
  then show ?case by simp
next
  case (Cons i xs)
  from Cons.prems have "\<forall>s. i \<noteq> Signal s" by auto
  from step_keeps_running [OF this] obtain q where
    q: "fst (step (Running srv pending) i) = Running srv q" by blast
  from Cons.prems have "\<forall>s. Signal s \<notin> set xs" by auto
  from Cons.IH [OF this] obtain q' where
    q': "fst (run (Running srv q) xs) = Running srv q'" by blast
  show ?case
    using q q' by (simp add: run_Cons del: run.simps(2))
qed

lemma dispatch_health_document:
  assumes "dispatch the_layers env c rq rs = Json_reply code doc"
    and "truthy (env ''DATABASE_URL'')"
  shows "hasDbConnection (environment doc) \<and> code = 200"
  using assms
  by (auto simp add: dispatch_the_layers res_json_def health_document_def
        split: payload.splits if_splits)

lemma step_health_documents:
  assumes "layers srv = the_layers" and "truthy (process_env srv ''DATABASE_URL'')"
    and "Answer rq (Json_reply code doc) \<in> set (snd (step (Running srv pending) i))"
  shows "hasDbConnection (environment doc) \<and> code = 200"
proof (cases i)
  case Listening
  with assms(3) show ?thesis by (auto simp add: ready_log_def)
next
  case (Incoming rq' c)
  show ?thesis
  proof (cases "dispatch the_layers (process_env srv) c rq' new_response")
    case (Json_reply code' doc')
    from dispatch_health_document [OF Json_reply assms(2)]
    have "hasDbConnection (environment doc') \<and> code' = 200" .
    with assms(3) Incoming Json_reply show ?thesis
      by (auto simp add: assms(1))
  next
    case Not_modified
    with assms(3) Incoming show ?thesis by (auto simp add: assms(1))
  next
    case (Handed_to_next x y)
    with assms(3) Incoming show ?thesis by (auto simp add: assms(1))
  next
    case (Error_reply x)
    with assms(3) Incoming show ?thesis by (auto simp add: assms(1))
  qed
next
  case Handler_done
  with assms(3) show ?thesis by auto
next
  case (Signal sg)
  with assms(3) show ?thesis by (auto simp add: shutdown_def split: if_splits)
qed

lemma step_from_running:
  "(\<exists>pending'. fst (step (Running srv pending) i) = Running srv pending')
   \<or> (\<exists>code. fst (step (Running srv pending) i) = Ended code)
   \<or> (\<exists>sg. fst (step (Running srv pending) i) = Killed sg)"
  by (cases i) (auto split: reply.splits)

lemma run_health_documents:
  assumes "layers srv = the_layers" and "truthy (process_env srv ''DATABASE_URL'')"
    and "Answer rq (Json_reply code doc) \<in> set (snd (run (Running srv pending) inputs))"
  shows "hasDbConnection (environment doc) \<and> code = 200"
  using assms(3)
proof (induction inputs arbitrary: pending)
  case Nil
  then show ?case by simp
next
  case (Cons i inputs)
  from Cons.prems have
    "Answer rq (Json_reply code doc) \<in> set (snd (step (Running srv pending) i))
     \<or> Answer rq (Json_reply code doc)
          \<in> set (snd (run (fst (step (Running srv pending) i)) inputs))"
    by (simp add: run_Cons del: run.simps(2))
  then show ?case
  proof
    assume "Answer rq (Json_reply code doc) \<in> set (snd (step (Running srv pending) i))"
    from step_health_documents [OF assms(1,2) this] show ?thesis .
  next
    assume later:
      "Answer rq (Json_reply code doc)
         \<in> set (snd (run (fst (step (Running srv pending) i)) inputs))"
    from step_from_running [of srv pending i] show ?thesis
    proof (elim disjE exE)
      fix q assume "fst (step (Running srv pending) i) = Running srv q"
      with later Cons.IH [of q] show ?thesis by simp
    next
      fix c assume "fst (step (Running srv pending) i) = Ended c"
      with later show ?thesis by (simp add: run_Ended)
    next
      fix s assume "fst (step (Running srv pending) i) = Killed s"
      with later show ?thesis by (simp add: run_Killed)
    qed
  qed
qed

lemma server_ok_post_rfi:
  "step (Running server_ok pending) (Incoming post_rfi noon) =
     (Running server_ok (pending @ [post_rfi\<lparr>body := Some ''[101, 102]'', body_read := True\<rparr>]),
      [Answer post_rfi
         (Handed_to_next (post_rfi\<lparr>body := Some ''[101, 102]'', body_read := True\<rparr>)
            (new_response\<lparr>wrapped := True\<rparr>))])"
proof -
  have p: "\<not> path_matches ''/api/health'' (path post_rfi)"
    by (simp add: post_rfi_def path_matches_def lower_char_def)
  have "dispatch the_layers env_dev noon post_rfi new_response =
      Handed_to_next (post_rfi\<lparr>body := Some ''[101, 102]'', body_read := True\<rparr>)
        (new_response\<lparr>wrapped := True\<rparr>)"
    using p by (simp add: dispatch_the_layers) (simp add: post_rfi_def)
  then show ?thesis
    by (simp add: server_ok_def)
qed

lemma server_ok_health_document:
  "health_document env_dev noon =
     \<lparr> status = ''healthy'', uptime = 12.5, timestamp = ''2024-05-01T12:00:00.000Z'',
       environment = \<lparr> nodeEnv = Some ''development'', hasDbConnection = True \<rparr> \<rparr>"
  by (simp add: health_document_def noon_def env_dev_def env_ok_def)

lemma server_ok_get_health:
  "step (Running server_ok pending) (Incoming get_health noon) =
     (Running server_ok pending,
      [Answer get_health (Json_reply 200
         \<lparr> status = ''healthy'', uptime = 12.5, timestamp = ''2024-05-01T12:00:00.000Z'',
           environment = \<lparr> nodeEnv = Some ''development'', hasDbConnection = True \<rparr> \<rparr>)])"
proof -
  have "dispatch the_layers env_dev noon get_health new_response =
       Json_reply 200
         \<lparr> status = ''healthy'', uptime = 12.5, timestamp = ''2024-05-01T12:00:00.000Z'',
           environment = \<lparr> nodeEnv = Some ''development'', hasDbConnection = True \<rparr> \<rparr>"
    by (simp add: dispatch_the_layers get_health_def path_matches_health_self res_json_def
          server_ok_health_document)
  then show ?thesis
    by (simp add: server_ok_def)
qed

subsection \<open>A failed bootstrap never serves\<close>

text \<open>
  Claim C1. Whenever the generation command fails (the promisified \<^verbatim>\<open>exec\<close> rejects,
  which is what a nonzero exit status or a failure to run the command causes) or the
  connect call of the verification fails, \<^verbatim>\<open>startServer\<close> ends in \<^verbatim>\<open>process.exit(1)\<close>:
  the last event of the run is that exit, and neither \<^verbatim>\<open>app.prepare()\<close> nor
  \<^verbatim>\<open>server.listen\<close> is called anywhere in the run.
\<close>

theorem failed_bootstrap_never_serves:
  assumes "isl (exec_result w) \<or> connect_result w \<noteq> None"
  shows "snd (startServer w env) = Exited 1
       \<and> last (fst (startServer w env)) = Process_exit 1
       \<and> App_prepare \<notin> set (fst (startServer w env))
       \<and> (\<forall>p. Server_listen p \<notin> set (fst (startServer w env)))"
proof -
  from assms have "\<exists>t e. generate_try w env = (t, Inl e)"
    using generate_try_exec_fails [of w _ env] generate_try_connect_fails [of w _ env]
    by (auto simp: isl_def)
  then obtain t e where "generate_try w env = (t, Inl e)" by blast
  then have g: "generatePrismaClient w env = (t @ fst (generate_catch e), Inl e)"
    by (simp add: generate_reraises)
  have s: "startServer w env = ((t @ fst (generate_catch e)) @ start_catch e, Exited 1)"
    using start_generate_fails [OF g] .
  have ev: "\<And>ev. ev \<in> set (t @ fst (generate_catch e)) \<Longrightarrow>
      ev \<noteq> App_prepare \<and> (\<forall>p. ev \<noteq> Server_listen p)"
    using generate_events [of _ w env] by (simp add: g)
  show ?thesis
    using ev by (auto simp add: s start_catch_def)
qed

theorem failed_bootstrap_never_serves_witness:
  "isl (exec_result world_exec_fails)
   \<and> snd (startServer world_exec_fails env_ok) = Exited 1
   \<and> last (fst (startServer world_exec_fails env_ok)) = Process_exit 1
   \<and> App_prepare \<notin> set (fst (startServer world_exec_fails env_ok))
   \<and> connect_result world_connect_fails = Some connect_error
   \<and> snd (startServer world_connect_fails env_ok) = Exited 1
   \<and> App_prepare \<notin> set (fst (startServer world_connect_fails env_ok))"
  using failed_bootstrap_never_serves [of world_exec_fails env_ok]
    failed_bootstrap_never_serves [of world_connect_fails env_ok]
  by (simp add: world_exec_fails_def world_connect_fails_def world_ok_def)

subsection \<open>Missing configuration stops the start before generation\<close>

text \<open>
  Claim C2. When \<^verbatim>\<open>DATABASE_URL\<close> or \<^verbatim>\<open>DIRECT_URL\<close> is absent or empty, the list of
  missing names is not empty and holds exactly the required names that are absent
  or empty; \<^verbatim>\<open>generatePrismaClient\<close> throws the error of line 22, whose message ends
  with these names joined by a comma and a space; the generation command is never run
  (the run holds no \<^verbatim>\<open>exec\<close> call); \<^verbatim>\<open>app.prepare()\<close> is not called and the process
  exits with status 1.
\<close>

theorem missing_configuration_aborts:
  assumes "\<not> truthy (env ''DATABASE_URL'') \<or> \<not> truthy (env ''DIRECT_URL'')"
  shows "missingVars env \<noteq> []
       \<and> set (missingVars env) =
           {v. (v = ''DATABASE_URL'' \<or> v = ''DIRECT_URL'') \<and> \<not> truthy (env v)}
       \<and> snd (generatePrismaClient w env) = Inl (validation_error w env)
       \<and> message (validation_error w env) =
           ''Missing required environment variables: '' @ join '', '' (missingVars env)
       \<and> length (filter is_exec (fst (startServer w env))) = 0
       \<and> App_prepare \<notin> set (fst (startServer w env))
       \<and> snd (startServer w env) = Exited 1"
proof -
  have m: "missingVars env \<noteq> []"
    using assms by (auto simp add: missingVars_def requiredEnvVars_def)
  have ms: "set (missingVars env) =
      {v. (v = ''DATABASE_URL'' \<or> v = ''DIRECT_URL'') \<and> \<not> truthy (env v)}"
    by (auto simp add: missingVars_def requiredEnvVars_def)
  have g: "generatePrismaClient w env =
      ([Console_log [Text ''Starting Prisma Client generation process...'']]
         @ fst (generate_catch (validation_error w env)), Inl (validation_error w env))"
    by (simp add: generate_reraises generate_try_missing [OF m])
  have s: "startServer w env =
      (([Console_log [Text ''Starting Prisma Client generation process...'']]
         @ fst (generate_catch (validation_error w env)))
       @ start_catch (validation_error w env), Exited 1)"
    using start_generate_fails [OF g] .
  show ?thesis
    using m ms by (simp add: g s generate_catch_eq start_catch_def validation_error_def)
qed

theorem missing_configuration_aborts_witness:
  "\<not> truthy (env_no_direct ''DIRECT_URL'')
   \<and> missingVars env_no_direct = [''DIRECT_URL'']
   \<and> message (validation_error world_ok env_no_direct) =
       ''Missing required environment variables: DIRECT_URL''
   \<and> snd (generatePrismaClient world_ok env_no_direct) =
       Inl (validation_error world_ok env_no_direct)
   \<and> length (filter is_exec (fst (startServer world_ok env_no_direct))) = 0
   \<and> snd (startServer world_ok env_no_direct) = Exited 1
   \<and> message (validation_error world_ok Map.empty) =
       ''Missing required environment variables: DATABASE_URL, DIRECT_URL''"
  using missing_configuration_aborts [of env_no_direct world_ok]
  by (simp add: env_no_direct_def missingVars_def requiredEnvVars_def validation_error_def)

subsection \<open>The health check\<close>

text \<open>
  Claim C3, as amended. On a server that \<^verbatim>\<open>startServer\<close> has set up, every GET request
  for \<^verbatim>\<open>/api/health\<close> whose body the JSON parser lets pass and which is not a
  conditional request that the reply satisfies is answered with status 200 and a
  document that holds \<^verbatim>\<open>status\<close>, the string \<^verbatim>\<open>healthy\<close>; \<^verbatim>\<open>uptime\<close>, the reading of
  \<^verbatim>\<open>process.uptime()\<close>; \<^verbatim>\<open>timestamp\<close>, the string of \<^verbatim>\<open>new Date().toISOString()\<close>; and
  \<^verbatim>\<open>environment\<close> with \<^verbatim>\<open>hasDbConnection\<close>, which is true, and with \<^verbatim>\<open>nodeEnv\<close>, which is
  the \<^verbatim>\<open>NODE_ENV\<close> of the process when the request is handled: the value with which the
  process was started, or \<^verbatim>\<open>development\<close> when it was started without one. The process
  keeps running and the request is not handed to the framework.
\<close>

theorem health_reply:
  assumes "snd (startServer w env) = Serving srv"
    and "req_method rq = GET" and "path rq = ''/api/health''"
    and "body_accepted (payload rq)" and "\<not> validators_match rq"
  shows "dispatch (layers srv) (process_env srv) c rq rs =
           Json_reply 200
             \<lparr> status = ''healthy'', uptime = uptime_now c, timestamp = iso_now c,
               environment =
                 \<lparr> nodeEnv = Some (case env ''NODE_ENV'' of
                                     None \<Rightarrow> ''development''
                                   | Some s \<Rightarrow> if s = [] then ''development'' else s),
                   hasDbConnection = True \<rparr> \<rparr>
       \<and> step (Running srv pending) (Incoming rq c) =
           (Running srv pending,
            [Answer rq (Json_reply 200
               \<lparr> status = ''healthy'', uptime = uptime_now c, timestamp = iso_now c,
                 environment =
                   \<lparr> nodeEnv = Some (case env ''NODE_ENV'' of
                                       None \<Rightarrow> ''development''
                                     | Some s \<Rightarrow> if s = [] then ''development'' else s),
                     hasDbConnection = True \<rparr> \<rparr>)])"
proof -
  from serving_server [OF assms(1)]
  have srv: "layers srv = the_layers" "process_env srv = prepared_env env"
    and m: "missingVars env = []"
    by simp_all
  have d: "dispatch (layers srv) (process_env srv) c rq rs' =
           Json_reply 200
             \<lparr> status = ''healthy'', uptime = uptime_now c, timestamp = iso_now c,
               environment =
                 \<lparr> nodeEnv = Some (case env ''NODE_ENV'' of
                                     None \<Rightarrow> ''development''
                                   | Some s \<Rightarrow> if s = [] then ''development'' else s),
                   hasDbConnection = True \<rparr> \<rparr>" for rs'
    using assms(2-5) prepared_database_url [OF m]
    by (cases "payload rq")
      (simp_all add: srv dispatch_the_layers path_matches_health_self res_json_def
        health_document_def prepared_env_node_env)
  show ?thesis
    by (simp add: d)
qed

theorem health_reply_witness:
  "snd (startServer world_ok env_ok) = Serving server_ok
   \<and> req_method get_health = GET \<and> path get_health = ''/api/health''
   \<and> body_accepted (payload get_health) \<and> \<not> validators_match get_health
   \<and> dispatch (layers server_ok) (process_env server_ok) noon get_health new_response =
       Json_reply 200
         \<lparr> status = ''healthy'', uptime = 12.5, timestamp = ''2024-05-01T12:00:00.000Z'',
           environment = \<lparr> nodeEnv = Some ''development'', hasDbConnection = True \<rparr> \<rparr>
   \<and> snd (startServer world_ok env_prod) = Serving server_prod
   \<and> dispatch (layers server_prod) (process_env server_prod) noon get_health new_response =
       Json_reply 200
         \<lparr> status = ''healthy'', uptime = 12.5, timestamp = ''2024-05-01T12:00:00.000Z'',
           environment = \<lparr> nodeEnv = Some ''production'', hasDbConnection = True \<rparr> \<rparr>"
proof -
  have g: "req_method get_health = GET" "path get_health = ''/api/health''"
    "body_accepted (payload get_health)" "\<not> validators_match get_health"
    by (simp_all add: get_health_def)
  have n: "env_ok ''NODE_ENV'' = None" "env_prod ''NODE_ENV'' = Some ''production''"
    by (simp_all add: env_ok_def env_prod_def)
  from health_reply [OF world_ok_serves g, of noon new_response, THEN conjunct1]
  have 1: "dispatch (layers server_ok) (process_env server_ok) noon get_health new_response =
       Json_reply 200
         \<lparr> status = ''healthy'', uptime = 12.5, timestamp = ''2024-05-01T12:00:00.000Z'',
           environment = \<lparr> nodeEnv = Some ''development'', hasDbConnection = True \<rparr> \<rparr>"
    by (simp add: n noon_def)
  from health_reply [OF world_ok_serves_prod g, of noon new_response, THEN conjunct1]
  have 2: "dispatch (layers server_prod) (process_env server_prod) noon get_health new_response =
       Json_reply 200
         \<lparr> status = ''healthy'', uptime = 12.5, timestamp = ''2024-05-01T12:00:00.000Z'',
           environment = \<lparr> nodeEnv = Some ''production'', hasDbConnection = True \<rparr> \<rparr>"
    by (simp add: n noon_def)
  show ?thesis
    using world_ok_serves world_ok_serves_prod g 1 2 by blast
qed

text \<open>
  The claim as it was stated, that every GET request for the health check is answered
  with status 200 and the document, fails for a conditional request: to
  \<^verbatim>\<open>If-None-Match: *\<close> \<^verbatim>\<open>res.json\<close> answers 304 and sends no document.
\<close>

theorem conditional_health_request_counterexample:
  "snd (startServer world_ok env_ok) = Serving server_ok
   \<and> req_method get_health_conditional = GET
   \<and> path get_health_conditional = ''/api/health''
   \<and> dispatch (layers server_ok) (process_env server_ok) noon get_health_conditional
        new_response = Not_modified
   \<and> step (Running server_ok []) (Incoming get_health_conditional noon) =
        (Running server_ok [], [Answer get_health_conditional Not_modified])"
proof -
  have r: "req_method get_health_conditional = GET"
    "path get_health_conditional = ''/api/health''"
    by (simp_all add: get_health_conditional_def get_health_def)
  have a: "dispatch the_layers env_dev noon get_health_conditional new_response = Not_modified"
    by (simp add: dispatch_the_layers res_json_def path_matches_health_self
          get_health_conditional_def get_health_def)
  have l: "layers server_ok = the_layers" "process_env server_ok = env_dev"
    by (simp_all add: server_ok_def)
  show ?thesis
    using world_ok_serves r by (simp add: l a)
qed

subsection \<open>Every other request goes to the framework\<close>

text \<open>
  Claim C4, as amended. On a server that \<^verbatim>\<open>startServer\<close> has set up, take a request
  whose body the JSON parser lets pass and whose path decodes. When it is a GET or a
  HEAD request whose path is \<^verbatim>\<open>/api/health\<close>, compared without regard to case and with
  or without one trailing slash, the health route answers it, although the wildcard
  route matches it as well: the health route is registered first. Every other such
  request is given to the request handler of the framework, with its method and its
  path as they arrived. The pair that the handler receives is not the pair as it
  arrived: \<^verbatim>\<open>compression()\<close> has replaced \<^verbatim>\<open>write\<close> and \<^verbatim>\<open>end\<close> of the response, and
  \<^verbatim>\<open>express.json()\<close> has set \<^verbatim>\<open>req.body\<close> and, for a JSON body, has read the stream of
  the body to its end. Whatever pair the handler receives has these properties.
\<close>

theorem other_requests_are_delegated:
  assumes "snd (startServer w env) = Serving srv" and "body_accepted (payload rq)"
    and "path_decodes rq"
  shows "(if path_matches ''/api/health'' (path rq) \<and> (req_method rq = GET \<or> req_method rq = HEAD)
          then dispatch (layers srv) (process_env srv) c rq rs =
                 res_json rq (health_document (process_env srv) c)
          else dispatch (layers srv) (process_env srv) c rq rs =
                 Handed_to_next
                   (rq\<lparr>body := Some (case payload rq of Json_payload s \<Rightarrow> s | _ \<Rightarrow> ''{}''),
                       body_read := (case payload rq of Json_payload s \<Rightarrow> True
                                     | _ \<Rightarrow> body_read rq)\<rparr>)
                   (rs\<lparr>wrapped := True\<rparr>))
       \<and> (\<forall>rq' rs'. dispatch (layers srv) (process_env srv) c rq rs = Handed_to_next rq' rs'
            \<longrightarrow> req_method rq' = req_method rq \<and> path rq' = path rq
                \<and> payload rq' = payload rq \<and> body rq' \<noteq> None \<and> wrapped rs')"
proof -
  from serving_server [OF assms(1)]
  have srv: "layers srv = the_layers"
    by simp
  show ?thesis
    using assms(2,3)
    by (cases "payload rq") (auto simp add: srv dispatch_the_layers res_json_def)
qed

theorem other_requests_are_delegated_witness:
  "snd (startServer world_ok env_ok) = Serving server_ok
   \<and> body_accepted (payload post_rfi) \<and> path_decodes post_rfi
   \<and> dispatch (layers server_ok) (process_env server_ok) noon post_rfi new_response =
       Handed_to_next
         \<lparr> req_method = POST, path = ''/api/rfis'', path_decodes = True,
           payload = Json_payload ''[101, 102]'', validators_match = False,
           body = Some ''[101, 102]'', body_read = True \<rparr>
         \<lparr> wrapped = True \<rparr>
   \<and> body_accepted (payload get_health_slash) \<and> path_decodes get_health_slash
   \<and> dispatch (layers server_ok) (process_env server_ok) noon get_health_slash new_response =
       Json_reply 200
         \<lparr> status = ''healthy'', uptime = 12.5, timestamp = ''2024-05-01T12:00:00.000Z'',
           environment = \<lparr> nodeEnv = Some ''development'', hasDbConnection = True \<rparr> \<rparr>"
proof -
  have b: "body_accepted (payload post_rfi)" "path_decodes post_rfi"
    by (simp_all add: post_rfi_def)
  have p: "\<not> path_matches ''/api/health'' (path post_rfi)"
    by (simp add: post_rfi_def path_matches_def lower_char_def)
  from other_requests_are_delegated [OF world_ok_serves b, of noon new_response,
      THEN conjunct1] p
  have 1: "dispatch (layers server_ok) (process_env server_ok) noon post_rfi new_response =
       Handed_to_next
         \<lparr> req_method = POST, path = ''/api/rfis'', path_decodes = True,
           payload = Json_payload ''[101, 102]'', validators_match = False,
           body = Some ''[101, 102]'', body_read = True \<rparr>
         \<lparr> wrapped = True \<rparr>"
    by (simp add: post_rfi_def new_response_def)
  have s: "body_accepted (payload get_health_slash)" "path_decodes get_health_slash"
    by (simp_all add: get_health_slash_def)
  have q: "path_matches ''/api/health'' (path get_health_slash)"
    "req_method get_health_slash = GET" "\<not> validators_match get_health_slash"
    by (simp_all add: get_health_slash_def path_matches_def lower_char_def)
  have e: "process_env server_ok = env_dev"
    by (simp add: server_ok_def)
  from other_requests_are_delegated [OF world_ok_serves s, of noon new_response,
      THEN conjunct1] q
  have 2: "dispatch (layers server_ok) (process_env server_ok) noon get_health_slash
      new_response =
       Json_reply 200
         \<lparr> status = ''healthy'', uptime = 12.5, timestamp = ''2024-05-01T12:00:00.000Z'',
           environment = \<lparr> nodeEnv = Some ''development'', hasDbConnection = True \<rparr> \<rparr>"
    by (simp add: res_json_def e server_ok_health_document)
  show ?thesis
    using world_ok_serves b s 1 2 by blast
qed

text \<open>
  The claim as it was stated, that every request other than a GET for the health
  path is delegated, fails for a HEAD request for \<^verbatim>\<open>/api/health\<close>: the route registered
  with \<^verbatim>\<open>server.get\<close> answers it.
\<close>

theorem head_health_not_delegated_counterexample:
  "snd (startServer world_ok env_ok) = Serving server_ok
   \<and> req_method head_health = HEAD \<and> path head_health = ''/api/health''
   \<and> dispatch (layers server_ok) (process_env server_ok) noon head_health new_response =
       Json_reply 200
         \<lparr> status = ''healthy'', uptime = 12.5, timestamp = ''2024-05-01T12:00:00.000Z'',
           environment = \<lparr> nodeEnv = Some ''development'', hasDbConnection = True \<rparr> \<rparr>
   \<and> step (Running server_ok []) (Incoming head_health noon) =
       (Running server_ok [],
        [Answer head_health (Json_reply 200
           \<lparr> status = ''healthy'', uptime = 12.5, timestamp = ''2024-05-01T12:00:00.000Z'',
             environment = \<lparr> nodeEnv = Some ''development'', hasDbConnection = True \<rparr> \<rparr>)])"
proof -
  have a: "dispatch the_layers env_dev noon head_health new_response =
       Json_reply 200
         \<lparr> status = ''healthy'', uptime = 12.5, timestamp = ''2024-05-01T12:00:00.000Z'',
           environment = \<lparr> nodeEnv = Some ''development'', hasDbConnection = True \<rparr> \<rparr>"
    by (simp add: dispatch_the_layers head_health_def path_matches_health_self res_json_def
          server_ok_health_document)
  have l: "layers server_ok = the_layers" "process_env server_ok = env_dev"
    by (simp_all add: server_ok_def)
  have r: "req_method head_health = HEAD" "path head_health = ''/api/health''"
    by (simp_all add: head_health_def)
  show ?thesis
    using world_ok_serves r by (simp add: l a)
qed

subsection \<open>Where errors are caught\<close>



subsection \<open>Output on the error stream is a warning\<close>

text \<open>
  Claim C6. When the generation command has run (the configuration is complete) and
  exits normally with a non-empty error stream, the stream is written by one
  \<^verbatim>\<open>console.warn\<close> and the verification starts (the generated client is loaded).
  Apart from that warning the run is the run with an empty error stream: the same
  events and the same outcome. When every later call succeeds, the outcome is the
  server set up.
\<close>

theorem stderr_is_only_a_warning:
  assumes "missingVars env = []" and "exec_result w = Inr (out, err)" and "err \<noteq> []"
  shows "Console_warn [Text ''Prisma generation warnings:'', Text err]
           \<in> set (fst (startServer w env))
       \<and> Require_prisma_client \<in> set (fst (startServer w env))
       \<and> filter (\<lambda>ev. ev \<noteq> Console_warn [Text ''Prisma generation warnings:'', Text err])
           (fst (startServer w env))
           = fst (startServer (w\<lparr>exec_result := Inr (out, [])\<rparr>) env)
       \<and> snd (startServer w env) = snd (startServer (w\<lparr>exec_result := Inr (out, [])\<rparr>) env)
       \<and> (require_result w = None \<and> construct_result w = None \<and> connect_result w = None
            \<and> disconnect_result w = None \<and> prepare_result w = None \<and> listen_result w = None
          \<longrightarrow> snd (startServer w env) =
                Serving \<lparr> layers = the_layers, listen_port = PORT env,
                          shutdown_signals = [SIGTERM, SIGINT], process_env = prepared_env env \<rparr>)"
proof -
  let ?w' = "w\<lparr>exec_result := Inr (out, [])\<rparr>"
  let ?W = "Console_warn [Text ''Prisma generation warnings:'', Text err]"
  obtain t r where g: "generate_try w env = (t, r)" by (cases "generate_try w env")
  obtain t' r' where g': "generate_try ?w' env = (t', r')" by (cases "generate_try ?w' env")
  from generate_try_warning [OF assms] g g'
  have t: "?W \<in> set t" "Require_prisma_client \<in> set t"
    "filter (\<lambda>ev. ev \<noteq> ?W) t = t'" "r = r'"
    by simp_all
  have c: "filter (\<lambda>ev. ev \<noteq> ?W) (start_catch e) = start_catch e" for e
    by (simp add: start_catch_def)
  have d: "filter (\<lambda>ev. ev \<noteq> ?W) (fst (generate_catch e)) = fst (generate_catch e)" for e
    by (simp add: generate_catch_eq)
  have 1: "?W \<in> set (fst (startServer w env)) \<and> Require_prisma_client \<in> set (fst (startServer w env))"
    using t(1,2) by (simp add: startServer_cases g split: sum.splits option.splits)
  have 2: "filter (\<lambda>ev. ev \<noteq> ?W) (fst (startServer w env)) = fst (startServer ?w' env)
      \<and> snd (startServer w env) = snd (startServer ?w' env)"
    using t(3,4) c d by (simp add: startServer_cases g g' split: sum.splits option.splits)
  have 3: "require_result w = None \<and> construct_result w = None \<and> connect_result w = None
            \<and> disconnect_result w = None \<and> prepare_result w = None \<and> listen_result w = None
          \<longrightarrow> snd (startServer w env) =
                Serving \<lparr> layers = the_layers, listen_port = PORT env,
                          shutdown_signals = [SIGTERM, SIGINT], process_env = prepared_env env \<rparr>"
    using startServer_serving [OF assms(1,2)] by blast
  show ?thesis using 1 2 3 by blast
qed

theorem stderr_is_only_a_warning_witness:
  "missingVars env_ok = []
   \<and> exec_result world_warns = Inr ([], ''warn: deprecated preview feature'')
   \<and> Console_warn [Text ''Prisma generation warnings:'', Text ''warn: deprecated preview feature'']
        \<in> set (fst (startServer world_warns env_ok))
   \<and> Require_prisma_client \<in> set (fst (startServer world_warns env_ok))
   \<and> snd (startServer world_warns env_ok) = Serving server_ok"
proof -
  have ne: "''warn: deprecated preview feature'' \<noteq> []" by simp
  note t = stderr_is_only_a_warning [OF env_ok_complete world_warns_results(1) ne]
  from t world_warns_results
  have s: "snd (startServer world_warns env_ok) =
      Serving \<lparr> layers = the_layers, listen_port = PORT env_ok,
                shutdown_signals = [SIGTERM, SIGINT], process_env = prepared_env env_ok \<rparr>"
    by blast
  from t have a:
    "Console_warn [Text ''Prisma generation warnings:'', Text ''warn: deprecated preview feature'']
        \<in> set (fst (startServer world_warns env_ok))"
    "Require_prisma_client \<in> set (fst (startServer world_warns env_ok))"
    by blast+
  show ?thesis
    using a s env_ok_complete world_warns_results(1)
    by (simp add: server_ok_def env_ok_port prepared_env_ok)
qed

subsection \<open>The verification round trip\<close>

text \<open>
  Claim C7. In every run of \<^verbatim>\<open>startServer\<close> that ends with the server set up, the
  calls that leave the script are, in this order: the generation command, the load of
  the generated client, the construction of one client, one \<^verbatim>\<open>$connect\<close>, one
  \<^verbatim>\<open>$disconnect\<close>, and only then \<^verbatim>\<open>app.prepare()\<close> and the set-up of the Express
  application. No successful run omits the round trip, and none connects twice.
\<close>

theorem verification_round_trip:
  assumes "snd (startServer w env) = Serving srv"
  shows "library_calls (fst (startServer w env)) =
     [Exec ''npx prisma generate'' (generation_env env),
      Require_prisma_client, New_PrismaClient, Connect, Disconnect,
      App_prepare, Express_create, Server_use Compression, Server_use Json_parser,
      Server_get ''/api/health'', Server_all ''*'', Server_listen (PORT env),
      Process_on SIGTERM, Process_on SIGINT]"
proof -
  have st: "start_try w env = (fst (startServer w env), Inr srv)"
    using serving_start_try [OF assms] .
  from start_try_returns [OF st] obtain g where
    g: "generate_try w env = (g, Inr ())" and
    t: "fst (startServer w env) =
          g @ [App_prepare, Express_create, Server_use Compression, Server_use Json_parser,
               Server_get ''/api/health'', Server_all ''*'', Server_listen (PORT env),
               Process_on SIGTERM, Process_on SIGINT]"
    by blast
  from generate_try_returns [OF g] obtain out err where
    ok: "missingVars env = []" "exec_result w = Inr (out, err)"
      "require_result w = None" "construct_result w = None"
      "connect_result w = None" "disconnect_result w = None"
    by blast
  have "library_calls g =
     [Exec ''npx prisma generate'' (generation_env env),
      Require_prisma_client, New_PrismaClient, Connect, Disconnect]"
    using g generate_try_succeeds [OF ok] by (auto simp add: library_calls_def)
  then show ?thesis
    by (simp add: t library_calls_def)
qed

theorem verification_round_trip_witness:
  "snd (startServer world_ok env_ok) = Serving server_ok
   \<and> library_calls (fst (startServer world_ok env_ok)) =
     [Exec ''npx prisma generate'' (generation_env env_ok),
      Require_prisma_client, New_PrismaClient, Connect, Disconnect,
      App_prepare, Express_create, Server_use Compression, Server_use Json_parser,
      Server_get ''/api/health'', Server_all ''*'', Server_listen Port_8080,
      Process_on SIGTERM, Process_on SIGINT]"
  using verification_round_trip [OF world_ok_serves] world_ok_serves env_ok_port by simp

subsection \<open>The environment of the generation command\<close>

text \<open>
  Claim C8, as amended. The environment given to the generation command is the
  environment of the process with two entries written over it:
  \<^verbatim>\<open>PRISMA_CLIENT_ENGINE_TYPE\<close> is always \<^verbatim>\<open>binary\<close>, and \<^verbatim>\<open>NODE_ENV\<close> is \<^verbatim>\<open>production\<close>
  when the process has no \<^verbatim>\<open>NODE_ENV\<close> or an empty one, and the value of the process
  otherwise. Every other variable is passed as it is. When the configuration is
  complete, the run calls \<^verbatim>\<open>exec\<close> exactly once, with \<^verbatim>\<open>npx prisma generate\<close> and this
  environment.
\<close>

theorem generation_environment:
  "generation_env env ''PRISMA_CLIENT_ENGINE_TYPE'' = Some ''binary''
   \<and> generation_env env ''NODE_ENV'' =
       (case env ''NODE_ENV'' of
          None \<Rightarrow> Some ''production''
        | Some s \<Rightarrow> if s = [] then Some ''production'' else Some s)
   \<and> (\<forall>v. v \<noteq> ''PRISMA_CLIENT_ENGINE_TYPE'' \<and> v \<noteq> ''NODE_ENV''
          \<longrightarrow> generation_env env v = env v)
   \<and> (missingVars env = [] \<longrightarrow>
        filter is_exec (fst (startServer w env))
          = [Exec ''npx prisma generate'' (generation_env env)])"
proof (intro conjI allI impI)
  show "generation_env env ''PRISMA_CLIENT_ENGINE_TYPE'' = Some ''binary''"
    by (simp add: generation_env_def)
  show "generation_env env ''NODE_ENV'' =
       (case env ''NODE_ENV'' of
          None \<Rightarrow> Some ''production''
        | Some s \<Rightarrow> if s = [] then Some ''production'' else Some s)"
    by (simp add: generation_env_def split: option.splits)
  show "generation_env env v = env v"
    if "v \<noteq> ''PRISMA_CLIENT_ENGINE_TYPE'' \<and> v \<noteq> ''NODE_ENV''" for v
    using that by (simp add: generation_env_def)
  show "filter is_exec (fst (startServer w env))
          = [Exec ''npx prisma generate'' (generation_env env)]"
    if "missingVars env = []"
    by (simp only: startServer_execs generate_try_execs [OF that])
qed

theorem generation_environment_witness:
  "generation_env env_ok ''PRISMA_CLIENT_ENGINE_TYPE'' = Some ''binary''
   \<and> generation_env env_ok ''NODE_ENV'' = Some ''production''
   \<and> generation_env env_dev ''NODE_ENV'' = Some ''development''
   \<and> generation_env env_ok ''DATABASE_URL'' = Some ''postgresql://app@db.internal:6543/rfi''
   \<and> generation_env env_ok ''PORT'' = None
   \<and> filter is_exec (fst (startServer world_ok env_ok))
        = [Exec ''npx prisma generate'' (generation_env env_ok)]"
proof -
  note G = generation_environment [of env_ok world_ok]
  note D = generation_environment [of env_dev world_ok]
  have 1: "generation_env env_ok ''PRISMA_CLIENT_ENGINE_TYPE'' = Some ''binary''"
    using G by (rule conjunct1)
  have n: "env_ok ''NODE_ENV'' = None" "env_dev ''NODE_ENV'' = Some ''development''"
    by (simp_all add: env_ok_def env_dev_def)
  have 2: "generation_env env_ok ''NODE_ENV'' = Some ''production''"
    using G [THEN conjunct2, THEN conjunct1] by (simp add: n)
  have 3: "generation_env env_dev ''NODE_ENV'' = Some ''development''"
    using D [THEN conjunct2, THEN conjunct1] by (simp add: n)
  note rest = G [THEN conjunct2, THEN conjunct2, THEN conjunct1, rule_format]
  have 4: "generation_env env_ok ''DATABASE_URL'' = Some ''postgresql://app@db.internal:6543/rfi''"
    using rest [of "''DATABASE_URL''"] by (simp add: env_ok_def)
  have 5: "generation_env env_ok ''PORT'' = None"
    using rest [of "''PORT''"] by (simp add: env_ok_def)
  have 6: "filter is_exec (fst (startServer world_ok env_ok))
        = [Exec ''npx prisma generate'' (generation_env env_ok)]"
    using G [THEN conjunct2, THEN conjunct2, THEN conjunct2] env_ok_complete by blast
  show ?thesis using 1 2 3 4 5 6 by blast
qed

text \<open>
  The claim as it was stated, that \<^verbatim>\<open>NODE_ENV\<close> is forced to a production value
  during generation, fails for a process started with \<^verbatim>\<open>NODE_ENV=development\<close>.
\<close>

theorem node_env_not_forced_counterexample:
  "env_dev ''NODE_ENV'' = Some ''development''
   \<and> generation_env env_dev ''NODE_ENV'' = Some ''development''
   \<and> generation_env env_dev ''NODE_ENV'' \<noteq> Some ''production''"
  by (simp add: generation_env_def env_dev_def)

subsection \<open>Termination signals\<close>

text \<open>
  Claim C9. On a server that \<^verbatim>\<open>startServer\<close> has set up, SIGTERM and SIGINT run
  \<^verbatim>\<open>shutdown\<close>: whatever requests are still with the framework, the process writes
  \<^verbatim>\<open>Shutting down gracefully...\<close> and exits with status 0 in the same step. In a run
  of the process, the effects after the first such signal are exactly this notice
  and this exit: nothing that arrives later is answered.
\<close>

theorem signal_ends_process:
  assumes "snd (startServer w env) = Serving srv"
    and "sg = SIGTERM \<or> sg = SIGINT"
    and "\<forall>s. Signal s \<notin> set before"
  shows "step (Running srv pending) (Signal sg) =
           (Ended 0, [Out (Console_log [Text ''Shutting down gracefully...'']),
                      Out (Process_exit 0)])
       \<and> run (Running srv []) (before @ Signal sg # later) =
           (Ended 0,
            snd (run (Running srv []) before) @
              [Out (Console_log [Text ''Shutting down gracefully...'']), Out (Process_exit 0)])"
proof -
  from serving_server [OF assms(1)]
  have sig: "shutdown_signals srv = [SIGTERM, SIGINT]" by simp
  have st: "step (Running srv q) (Signal sg) =
           (Ended 0, [Out (Console_log [Text ''Shutting down gracefully...'']),
                      Out (Process_exit 0)])" for q
    using assms(2) by (auto simp add: sig shutdown_def)
  from run_keeps_running [OF assms(3)] obtain q where
    q: "fst (run (Running srv []) before) = Running srv q" by blast
  have "run (Running srv []) (before @ Signal sg # later) =
           (Ended 0,
            snd (run (Running srv []) before) @
              [Out (Console_log [Text ''Shutting down gracefully...'']), Out (Process_exit 0)])"
    by (simp add: run_append run_Cons q st run_Ended del: run.simps(2) step.simps)
  with st show ?thesis by simp
qed

theorem signal_ends_process_witness:
  "snd (startServer world_ok env_ok) = Serving server_ok
   \<and> run (Running server_ok [])
        ([Incoming post_rfi noon] @ Signal SIGTERM # [Incoming get_health noon, Listening]) =
       (Ended 0,
        [Answer post_rfi
           (Handed_to_next (post_rfi\<lparr>body := Some ''[101, 102]'', body_read := True\<rparr>)
              (new_response\<lparr>wrapped := True\<rparr>)),
         Out (Console_log [Text ''Shutting down gracefully...'']),
         Out (Process_exit 0)])
   \<and> step (Running server_ok [post_rfi]) (Signal SIGINT) =
       (Ended 0,
        [Out (Console_log [Text ''Shutting down gracefully...'']), Out (Process_exit 0)])"
proof -
  have b: "\<forall>s. Signal s \<notin> set [Incoming post_rfi noon]" by simp
  have r: "snd (run (Running server_ok []) [Incoming post_rfi noon]) =
      [Answer post_rfi
         (Handed_to_next (post_rfi\<lparr>body := Some ''[101, 102]'', body_read := True\<rparr>)
            (new_response\<lparr>wrapped := True\<rparr>))]"
    by (simp add: server_ok_post_rfi del: step.simps)
  have t: "SIGTERM = SIGTERM \<or> SIGTERM = SIGINT" and i: "SIGINT = SIGTERM \<or> SIGINT = SIGINT"
    by simp_all
  from signal_ends_process [OF world_ok_serves t b, THEN conjunct2,
      of "[Incoming get_health noon, Listening]"]
  have 1: "run (Running server_ok [])
        ([Incoming post_rfi noon] @ Signal SIGTERM # [Incoming get_health noon, Listening]) =
       (Ended 0,
        [Answer post_rfi
           (Handed_to_next (post_rfi\<lparr>body := Some ''[101, 102]'', body_read := True\<rparr>)
              (new_response\<lparr>wrapped := True\<rparr>)),
         Out (Console_log [Text ''Shutting down gracefully...'']),
         Out (Process_exit 0)])"
    by (simp only: r append.simps)
  from signal_ends_process [OF world_ok_serves i b, THEN conjunct1, of "[post_rfi]"]
  have 2: "step (Running server_ok [post_rfi]) (Signal SIGINT) =
       (Ended 0,
        [Out (Console_log [Text ''Shutting down gracefully...'']), Out (Process_exit 0)])" .
  show ?thesis
    using world_ok_serves 1 2 by blast
qed

subsection \<open>The health check always reports the database configuration\<close>

text \<open>
  Claim C10. On a server that \<^verbatim>\<open>startServer\<close> has set up, every document that the
  process ever sends in answer to a request has \<^verbatim>\<open>hasDbConnection\<close> true (and status
  200): the server is only set up when \<^verbatim>\<open>DATABASE_URL\<close> is a non-empty string, and no
  step of the process changes the environment.
\<close>

theorem health_always_reports_database:
  assumes "snd (startServer w env) = Serving srv"
    and "Answer rq (Json_reply code doc) \<in> set (snd (run (Running srv []) inputs))"
  shows "hasDbConnection (environment doc) \<and> code = 200"
proof -
  from serving_server [OF assms(1)]
  have l: "layers srv = the_layers" and e: "process_env srv = prepared_env env"
    and m: "missingVars env = []"
    by simp_all
  have "truthy (process_env srv ''DATABASE_URL'')"
    using prepared_database_url [OF m] by (simp add: e)
  from run_health_documents [OF l this assms(2)] show ?thesis .
qed

theorem health_always_reports_database_witness:
  "snd (startServer world_ok env_ok) = Serving server_ok
   \<and> Answer get_health (Json_reply 200
         \<lparr> status = ''healthy'', uptime = 12.5, timestamp = ''2024-05-01T12:00:00.000Z'',
           environment = \<lparr> nodeEnv = Some ''development'', hasDbConnection = True \<rparr> \<rparr>)
       \<in> set (snd (run (Running server_ok []) [Incoming post_rfi noon, Incoming get_health noon]))
   \<and> hasDbConnection (environment
         \<lparr> status = ''healthy'', uptime = 12.5, timestamp = ''2024-05-01T12:00:00.000Z'',
           environment = \<lparr> nodeEnv = Some ''development'', hasDbConnection = True \<rparr> \<rparr>)"
proof -
  have m: "Answer get_health (Json_reply 200
         \<lparr> status = ''healthy'', uptime = 12.5, timestamp = ''2024-05-01T12:00:00.000Z'',
           environment = \<lparr> nodeEnv = Some ''development'', hasDbConnection = True \<rparr> \<rparr>)
       \<in> set (snd (run (Running server_ok []) [Incoming post_rfi noon, Incoming get_health noon]))"
    by (simp add: server_ok_post_rfi server_ok_get_health del: step.simps)
  from health_always_reports_database [OF world_ok_serves m]
  have "hasDbConnection (environment
         \<lparr> status = ''healthy'', uptime = 12.5, timestamp = ''2024-05-01T12:00:00.000Z'',
           environment = \<lparr> nodeEnv = Some ''development'', hasDbConnection = True \<rparr> \<rparr>)"
    by (rule conjunct1)
  with world_ok_serves m show ?thesis by blast
qed

end
